theory Spec2Isabelle
  imports Complex_Main "HOL-Library.Sublist"
begin

section \<open>Python values, exceptions and strings\<close>

text \<open>
  The repository is Python. A Python \<open>str\<close> is modelled as a HOL \<open>string\<close>; one list
  element stands for one code point (texts in the range of \<open>char\<close>), so \<open>length\<close> is
  Python's \<open>len\<close> and \<open>take n\<close> is the slice \<open>[:n]\<close>. Raised exceptions are values of
  \<open>pyexc\<close>; a function that may raise returns \<open>pyexc + 'a\<close> with \<open>Inl\<close> for the exception.
  Output on the console (\<open>print\<close>, \<open>self.console.print\<close>) is not modelled.
\<close>

datatype pyexc =
    KeyError string
  | TypeError
  | AttributeError
  | ZeroDivisionError
  | ValueError
  | OSError string
  | Raised string string

text \<open>
  \<open>OSError\<close> stands for a failure of \<open>open\<close> or \<open>json.load\<close>; \<open>Raised cls msg\<close> is an
  exception of class \<open>cls\<close> raised by an external collaborator (retriever, vector store,
  language model).
\<close>

fun exc_class :: "pyexc \<Rightarrow> string" where
  "exc_class (KeyError k) = ''KeyError''"
| "exc_class TypeError = ''TypeError''"
| "exc_class AttributeError = ''AttributeError''"
| "exc_class ZeroDivisionError = ''ZeroDivisionError''"
| "exc_class ValueError = ''ValueError''"
| "exc_class (OSError m) = ''OSError''"
| "exc_class (Raised cls m) = cls"

fun exc_message :: "pyexc \<Rightarrow> string" where
  "exc_message (KeyError k) = k"
| "exc_message TypeError = []"
| "exc_message AttributeError = []"
| "exc_message ZeroDivisionError = ''float division by zero''"
| "exc_message ValueError = []"
| "exc_message (OSError m) = m"
| "exc_message (Raised cls m) = m"

text \<open>The values \<open>json.load\<close> produces; a JSON object is a dict, kept as an association list.\<close>

datatype json =
    JNull
  | JBool bool
  | JInt int
  | JFloat real
  | JStr string
  | JList "json list"
  | JObj "(string \<times> json) list"

text \<open>\<open>obj[key]\<close> with a string key: only a dict accepts it, and a missing key raises.\<close>

fun py_getitem :: "json \<Rightarrow> string \<Rightarrow> pyexc + json" where
  "py_getitem (JObj kv) k = (case map_of kv k of None \<Rightarrow> Inl (KeyError k) | Some v \<Rightarrow> Inr v)"
| "py_getitem _ k = Inl TypeError"

text \<open>\<open>obj.get(key, default)\<close>: only a dict has the method.\<close>

fun py_get :: "json \<Rightarrow> string \<Rightarrow> json \<Rightarrow> pyexc + json" where
  "py_get (JObj kv) k d = Inr (case map_of kv k of None \<Rightarrow> d | Some v \<Rightarrow> v)"
| "py_get _ k d = Inl AttributeError"

text \<open>
  \<open>for x in obj\<close>: a list yields its elements, a dict its keys, a string its characters;
  the other values are not iterable.
\<close>

fun py_iter :: "json \<Rightarrow> pyexc + json list" where
  "py_iter (JList xs) = Inr xs"
| "py_iter (JObj kv) = Inr (map (\<lambda>p. JStr (fst p)) kv)"
| "py_iter (JStr s) = Inr (map (\<lambda>c. JStr [c]) s)"
| "py_iter _ = Inl TypeError"

definition py_isspace :: "char \<Rightarrow> bool" where
  "py_isspace c \<longleftrightarrow> c \<in> set [CHR 0x09, CHR 0x0A, CHR 0x0B, CHR 0x0C, CHR 0x0D,
     CHR 0x1C, CHR 0x1D, CHR 0x1E, CHR 0x1F, CHR 0x20, CHR 0x85, CHR 0xA0]"

definition strip :: "string \<Rightarrow> string" where
  "strip s = rev (dropWhile py_isspace (rev (dropWhile py_isspace s)))"

text \<open>\<open>obj.strip()\<close>: only a string has the method.\<close>

fun py_strip :: "json \<Rightarrow> pyexc + string" where
  "py_strip (JStr s) = Inr (strip s)"
| "py_strip _ = Inl AttributeError"

text \<open>Decimal rendering of a natural number, as \<open>str\<close> and f-strings print an \<open>int\<close>.\<close>

fun show_nat :: "nat \<Rightarrow> string" where
  "show_nat n = (if n < 10 then [''0123456789'' ! n]
     else show_nat (n div 10) @ [''0123456789'' ! (n mod 10)])"

declare show_nat.simps [simp del]

section \<open>Document store (\<open>document_manager.py\<close>)\<close>

text \<open>
  A langchain \<open>Document\<close>: the chunk text and its metadata dict. \<open>load_documents\<close> builds
  the dict \<open>{"source": file_name, "page": page.get("page")}\<close>.
\<close>

record document =
  page_content :: string
  metadata :: "(string \<times> json) list"

text \<open>
  The FAISS store is an external library. It is modelled by what it holds: one entry per
  document passed to \<open>FAISS.from_documents\<close>, in order (the embedding vectors are left out);
  building it is taken to succeed.
\<close>

datatype faiss = FAISS (index_entries: "document list")

definition from_documents :: "document list \<Rightarrow> faiss" where
  "from_documents docs = FAISS docs"

text \<open>
  The fields of \<open>DocumentManager\<close> (\<open>dm_vectorstore\<close> and \<open>dm_retriever\<close> are
  \<open>self.vectorstore\<close> and \<open>self.retriever\<close>; the retriever made by \<open>as_retriever()\<close> is
  represented by the store it wraps). \<open>None\<close> is Python's \<open>None\<close>.
\<close>

record document_manager =
  documents :: "document list"
  dm_vectorstore :: "faiss option"
  dm_retriever :: "faiss option"

definition init_document_manager :: document_manager where
  "init_document_manager = \<lparr>documents = [], dm_vectorstore = None, dm_retriever = None\<rparr>"

text \<open>
  The inner loop \<open>for page in item["content"]\<close> of \<open>load_documents\<close>. It appends to
  \<open>self.documents\<close> directly, so when a page raises, the list built so far is what the
  store keeps: the loop returns the exception (if any) together with the list.
\<close>

fun load_pages :: "json \<Rightarrow> json list \<Rightarrow> document list \<Rightarrow> pyexc option \<times> document list" where
  "load_pages file_name [] docs = (None, docs)"
| "load_pages file_name (page # pages) docs =
     (case py_get page ''text'' (JStr []) of
        Inl e \<Rightarrow> (Some e, docs)
      | Inr t \<Rightarrow>
         (case py_strip t of
            Inl e \<Rightarrow> (Some e, docs)
          | Inr text \<Rightarrow>
             if text \<noteq> [] then
               (case py_get page ''page'' JNull of
                  Inl e \<Rightarrow> (Some e, docs)
                | Inr pg \<Rightarrow>
                    load_pages file_name pages
                      (docs @ [\<lparr>page_content = text,
                                metadata = [(''source'', file_name), (''page'', pg)]\<rparr>]))
             else load_pages file_name pages docs))"

text \<open>The outer loop \<open>for item in data\<close>.\<close>

fun load_items :: "json list \<Rightarrow> document list \<Rightarrow> pyexc option \<times> document list" where
  "load_items [] docs = (None, docs)"
| "load_items (item # items) docs =
     (case py_getitem item ''file_name'' of
        Inl e \<Rightarrow> (Some e, docs)
      | Inr file_name \<Rightarrow>
         (case py_getitem item ''content'' of
            Inl e \<Rightarrow> (Some e, docs)
          | Inr content \<Rightarrow>
             (case py_iter content of
                Inl e \<Rightarrow> (Some e, docs)
              | Inr pages \<Rightarrow>
                 (case load_pages file_name pages docs of
                    (Some e, docs') \<Rightarrow> (Some e, docs')
                  | (None, docs') \<Rightarrow> load_items items docs'))))"

text \<open>
  \<open>DocumentManager.load_documents\<close>. The argument \<open>file\<close> is what \<open>open\<close> and
  \<open>json.load\<close> give for the path: the parsed data, or the exception they raise. The
  whole body is inside \<open>try ... except Exception\<close>, so the method never raises: it
  returns \<open>True\<close> or \<open>False\<close>, with the store as the body left it.
\<close>

definition load_documents :: "document_manager \<Rightarrow> pyexc + json \<Rightarrow> bool \<times> document_manager" where
  "load_documents self file =
     (case file of
        Inl e \<Rightarrow> (False, self)
      | Inr data \<Rightarrow>
         (case py_iter data of
            Inl e \<Rightarrow> (False, self\<lparr>documents := []\<rparr>)
          | Inr items \<Rightarrow>
             (case load_items items [] of
                (Some e, docs) \<Rightarrow> (False, self\<lparr>documents := docs\<rparr>)
              | (None, docs) \<Rightarrow> (True, self\<lparr>documents := docs\<rparr>))))"

text \<open>\<open>DocumentManager.build_vectorstore\<close>.\<close>

definition build_vectorstore :: "document_manager \<Rightarrow> bool \<times> document_manager" where
  "build_vectorstore self =
     (if documents self = [] then (False, self)
      else
        (let vs = from_documents (documents self)
         in (True, self\<lparr>dm_vectorstore := Some vs, dm_retriever := Some vs\<rparr>)))"

text \<open>Number of entries of the index the store holds, if it holds one.\<close>

definition index_size :: "document_manager \<Rightarrow> nat option" where
  "index_size self = map_option (\<lambda>vs. length (index_entries vs)) (dm_vectorstore self)"

subsection \<open>The corpus format, in the words of the specification\<close>

text \<open>
  A corpus is a sequence of records, each with a file name and a list of pages; a page
  has an optional text and an optional page number. These definitions describe the
  corpus, not the loader; the loader is compared with them below.
\<close>

fun wf_page :: "json \<Rightarrow> bool" where
  "wf_page (JObj kv) =
     (case map_of kv ''text'' of None \<Rightarrow> True | Some (JStr t) \<Rightarrow> True | Some _ \<Rightarrow> False)"
| "wf_page _ = False"

fun wf_item :: "json \<Rightarrow> bool" where
  "wf_item (JObj kv) =
     (map_of kv ''file_name'' \<noteq> None \<and>
      (case map_of kv ''content'' of Some (JList ps) \<Rightarrow> list_all wf_page ps | _ \<Rightarrow> False))"
| "wf_item _ = False"

fun well_formed :: "json \<Rightarrow> bool" where
  "well_formed (JList items) = list_all wf_item items"
| "well_formed _ = False"

text \<open>A record that lacks one of the required fields \<open>file_name\<close> and \<open>content\<close>.\<close>

fun missing_field :: "json \<Rightarrow> bool" where
  "missing_field (JObj kv) = (map_of kv ''file_name'' = None \<or> map_of kv ''content'' = None)"
| "missing_field _ = False"

fun item_file_name :: "json \<Rightarrow> json" where
  "item_file_name (JObj kv) = (case map_of kv ''file_name'' of Some v \<Rightarrow> v | None \<Rightarrow> JNull)"
| "item_file_name _ = JNull"

fun item_pages :: "json \<Rightarrow> json list" where
  "item_pages (JObj kv) = (case map_of kv ''content'' of Some (JList ps) \<Rightarrow> ps | _ \<Rightarrow> [])"
| "item_pages _ = []"

fun page_text :: "json \<Rightarrow> string" where
  "page_text (JObj kv) = (case map_of kv ''text'' of Some (JStr t) \<Rightarrow> t | _ \<Rightarrow> [])"
| "page_text _ = []"

fun page_number :: "json \<Rightarrow> json" where
  "page_number (JObj kv) = (case map_of kv ''page'' of Some v \<Rightarrow> v | None \<Rightarrow> JNull)"
| "page_number _ = JNull"

text \<open>The page entries of a list of records, each with the file name of its record.\<close>

definition page_entries :: "json list \<Rightarrow> (json \<times> json) list" where
  "page_entries items =
     concat (map (\<lambda>item. map (\<lambda>p. (item_file_name item, p)) (item_pages item)) items)"

definition nonempty_after_trim :: "json \<times> json \<Rightarrow> bool" where
  "nonempty_after_trim e \<longleftrightarrow> strip (page_text (snd e)) \<noteq> []"

definition chunk_of :: "json \<times> json \<Rightarrow> document" where
  "chunk_of e = \<lparr>page_content = strip (page_text (snd e)),
                 metadata = [(''source'', fst e), (''page'', page_number (snd e))]\<rparr>"

definition expected_chunks :: "json list \<Rightarrow> document list" where
  "expected_chunks items = map chunk_of (filter nonempty_after_trim (page_entries items))"

fun corpus_items :: "json \<Rightarrow> json list" where
  "corpus_items (JList items) = items"
| "corpus_items _ = []"

text \<open>\<open>N\<close> and \<open>M\<close> of the specification.\<close>

definition page_count :: "json \<Rightarrow> nat" where
  "page_count data = length (page_entries (corpus_items data))"

definition nonempty_page_count :: "json \<Rightarrow> nat" where
  "nonempty_page_count data = length (filter nonempty_after_trim (page_entries (corpus_items data)))"

section \<open>Agent chain (\<open>modified-code.py\<close>, class \<open>AAOIFIAgentChain\<close>)\<close>

text \<open>
  The collaborators are external and enter as functions. A retriever answers
  \<open>get_relevant_documents(query, k=...)\<close> with documents or raises; it may have a
  \<open>vectorstore\<close> attribute, and the store may have the method
  \<open>similarity_search_with_score\<close>, which answers with (document, score) pairs or raises
  (\<open>None\<close> is a missing attribute, what \<open>hasattr\<close> tests). A Python \<open>float\<close> is modelled
  as a real number: rounding error, infinities and NaN are outside the model, while
  division by zero raises as it does in Python.
\<close>

datatype vector_store =
  VectorStore (similarity_search_with_score: "(string \<Rightarrow> nat \<Rightarrow> pyexc + (document \<times> real) list) option")

record retriever_obj =
  get_relevant_documents :: "string \<Rightarrow> nat \<Rightarrow> pyexc + document list"
  vectorstore :: "vector_store option"

text \<open>
  The three \<open>LLMChain\<close>s are functions of the inputs their prompts take, in the order
  of the dict passed to \<open>invoke\<close>; each returns the generated text or raises.
\<close>

record agent_chain =
  retriever :: "retriever_obj option"
  review_chain :: "string \<Rightarrow> string \<Rightarrow> pyexc + string"
  enhancement_chain :: "string \<Rightarrow> string \<Rightarrow> pyexc + string"
  validation_chain :: "string \<Rightarrow> string \<Rightarrow> string \<Rightarrow> pyexc + string"

definition show_int :: "int \<Rightarrow> string" where
  "show_int i = (if i < 0 then ''-'' @ show_nat (nat (- i)) else show_nat (nat i))"

text \<open>
  \<open>str(v)\<close>, as an f-string renders a metadata value. The rendering of floats, lists and
  dicts is taken as the parameter \<open>fmt\<close>.
\<close>

fun py_str :: "(json \<Rightarrow> string) \<Rightarrow> json \<Rightarrow> string" where
  "py_str fmt JNull = ''None''"
| "py_str fmt (JBool b) = (if b then ''True'' else ''False'')"
| "py_str fmt (JInt i) = show_int i"
| "py_str fmt (JStr s) = s"
| "py_str fmt v = fmt v"

text \<open>\<open>doc.metadata.get(key, default)\<close> with a string default.\<close>

definition metadata_get :: "document \<Rightarrow> string \<Rightarrow> string \<Rightarrow> json" where
  "metadata_get doc key dflt =
     (case map_of (metadata doc) key of None \<Rightarrow> JStr dflt | Some v \<Rightarrow> v)"

text \<open>\<open>sep.join(parts)\<close>.\<close>

fun py_join :: "string \<Rightarrow> string list \<Rightarrow> string" where
  "py_join sep [] = []"
| "py_join sep [p] = p"
| "py_join sep (p # ps) = p @ sep @ py_join sep ps"

text \<open>
  The loop \<open>for i, doc in enumerate(docs)\<close> of \<open>_retrieve_relevant_documents\<close>, from
  index \<open>i\<close> on, appending to \<open>context_parts\<close>.
\<close>

fun context_loop :: "(json \<Rightarrow> string) \<Rightarrow> nat \<Rightarrow> document list \<Rightarrow> string list \<Rightarrow> string list" where
  "context_loop fmt i [] context_parts = context_parts"
| "context_loop fmt i (doc # docs) context_parts =
     (let source = metadata_get doc ''source'' ''Unknown source'';
          page = metadata_get doc ''page'' ''Unknown page''
      in context_loop fmt (i + 1) docs
           (context_parts @
            [''Document '' @ show_nat (i + 1) @ '' (Source: '' @ py_str fmt source @
             '', Page: '' @ py_str fmt page @ ''):'' @ [CHR 0x0A] @ page_content doc @ [CHR 0x0A]]))"

text \<open>
  \<open>_retrieve_relevant_documents\<close>. The second component lists the queries handed
  to the retriever by this method, oldest first; it is what a recording retriever would
  hold. The result is a string in every branch: the body after the first test is inside
  \<open>try ... except Exception\<close>.
\<close>

definition retrieve_relevant_documents ::
  "(json \<Rightarrow> string) \<Rightarrow> agent_chain \<Rightarrow> string list \<Rightarrow> string \<Rightarrow> nat \<Rightarrow> string \<times> string list" where
  "retrieve_relevant_documents fmt self queries query max_docs =
     (case retriever self of
        None \<Rightarrow> (''No document retriever available. Proceeding without additional context.'', queries)
      | Some r \<Rightarrow>
         (case get_relevant_documents r query max_docs of
            Inl e \<Rightarrow> (''Error retrieving documents from knowledge base.'', queries @ [query])
          | Inr docs \<Rightarrow>
              if docs = [] then (''No relevant documents found in knowledge base.'', queries @ [query])
              else (py_join [CHR 0x0A] (context_loop fmt 0 docs []), queries @ [query])))"

text \<open>\<open>_retrieve_top_fas_rules\<close>.\<close>

definition retrieve_top_fas_rules :: "agent_chain \<Rightarrow> string \<Rightarrow> nat \<Rightarrow> (document \<times> real) list" where
  "retrieve_top_fas_rules self query max_docs =
     (case retriever self of
        None \<Rightarrow> []
      | Some r \<Rightarrow>
         (case vectorstore r of
            None \<Rightarrow> []
          | Some vs \<Rightarrow>
             (case similarity_search_with_score vs of
                Some search \<Rightarrow>
                  (case search query max_docs of Inl e \<Rightarrow> [] | Inr docs_and_scores \<Rightarrow> docs_and_scores)
              | None \<Rightarrow>
                  (case get_relevant_documents r query max_docs of
                     Inl e \<Rightarrow> []
                   | Inr docs \<Rightarrow> map (\<lambda>doc. (doc, 0)) docs))))"

text \<open>The result of \<open>process_standard\<close>. Where a local variable of the source has the name of
  a field, the variable is primed.\<close>

record pipeline_output =
  summary :: string
  suggestion :: string
  validation :: string

text \<open>
  \<open>process_standard\<close>. An exception of a chain is not caught, so it ends the call; the
  list of queries is returned in either case.
\<close>

definition process_standard ::
  "(json \<Rightarrow> string) \<Rightarrow> agent_chain \<Rightarrow> string list \<Rightarrow> string
     \<Rightarrow> (pyexc + pipeline_output) \<times> string list" where
  "process_standard fmt self queries input_text =
     (let query_text = (if length input_text > 1000 then take 1000 input_text else input_text);
          (review_context, queries1) = retrieve_relevant_documents fmt self queries query_text 3
      in case review_chain self input_text review_context of
           Inl e \<Rightarrow> (Inl e, queries1)
         | Inr summary' \<Rightarrow>
            (let (enhancement_context, queries2) = retrieve_relevant_documents fmt self queries1 summary' 3
             in case enhancement_chain self summary' enhancement_context of
                  Inl e \<Rightarrow> (Inl e, queries2)
                | Inr suggestion' \<Rightarrow>
                   (let (validation_context, queries3) =
                          retrieve_relevant_documents fmt self queries2 suggestion' 3
                    in case validation_chain self input_text suggestion' validation_context of
                         Inl e \<Rightarrow> (Inl e, queries3)
                       | Inr validation' \<Rightarrow>
                           (Inr \<lparr>summary = summary', suggestion = suggestion',
                                 validation = validation'\<rparr>, queries3))))"

subsection \<open>Relevance report\<close>

record rule =
  source :: json
  page :: json
  content_snippet :: string
  relevance_percentage :: real

record relevance_report =
  message :: string
  rules :: "rule list"

text \<open>
  Division of Python floats, as on the fallback path of \<open>_retrieve_top_fas_rules\<close>, whose
  scores are the literal \<open>0.0\<close>: a zero divisor raises \<open>ZeroDivisionError\<close>. Scores of a
  numpy type, which a FAISS store hands out, do not raise on a zero divisor but give
  \<open>nan\<close> or \<open>inf\<close>; that case is outside this model, and none of the claims below
  relies on the raise for scores that come from \<open>similarity_search_with_score\<close>.
\<close>

definition py_div :: "real \<Rightarrow> real \<Rightarrow> pyexc + real" where
  "py_div a b = (if b = 0 then Inl ZeroDivisionError else Inr (a / b))"

text \<open>
  \<open>round(x, 2)\<close> on the exact value: to two decimals, a tie going to the even neighbour.
  The code rounds the binary float nearest to the value, which can lie on the other side
  of a tie of the exact value (\<open>107 / 4000 * 100\<close> is \<open>2.675\<close> and rounds to \<open>2.68\<close> here,
  to \<open>2.67\<close> in the code). The statements below use the rounding only at values that are
  exact in binary (100, 75, 50 and 25).
\<close>

definition py_round2 :: "real \<Rightarrow> real" where
  "py_round2 x =
     (let y = x * 100; f = \<lfloor>y\<rfloor>; d = y - of_int f
      in if d < 1 / 2 then of_int f / 100
         else if d > 1 / 2 then of_int (f + 1) / 100
         else of_int (if even f then f else f + 1) / 100)"

text \<open>\<open>max\<close> of a list of scores; the empty list raises.\<close>

fun py_max :: "real list \<Rightarrow> pyexc + real" where
  "py_max [] = Inl ValueError"
| "py_max (x # xs) = Inr (fold max xs x)"

text \<open>
  The expression
  \<open>doc.page_content[:200] + "..." if len(doc.page_content) > 200 else doc.page_content\<close>.
\<close>

definition snippet_of :: "string \<Rightarrow> string" where
  "snippet_of text = (if length text > 200 then take 200 text @ ''...'' else text)"

text \<open>
  The loop \<open>for doc, score in docs_and_scores\<close> of \<open>find_relevant_fas_rules\<close>, appending
  to \<open>rules\<close>; the division raises when \<open>max_score\<close> is zero.
\<close>

fun rules_loop :: "real \<Rightarrow> (document \<times> real) list \<Rightarrow> rule list \<Rightarrow> pyexc + rule list" where
  "rules_loop max_score [] rules' = Inr rules'"
| "rules_loop max_score ((doc, score) # rest) rules' =
     (case py_div score max_score of
        Inl e \<Rightarrow> Inl e
      | Inr q \<Rightarrow>
         (let percentage = q * 100
          in rules_loop max_score rest
               (rules' @
                [\<lparr>source = metadata_get doc ''source'' ''Unknown source'',
                  page = metadata_get doc ''page'' ''Unknown page'',
                  content_snippet = snippet_of (page_content doc),
                  relevance_percentage = py_round2 percentage\<rparr>])))"

text \<open>\<open>find_relevant_fas_rules\<close>.\<close>

definition find_relevant_fas_rules :: "agent_chain \<Rightarrow> string \<Rightarrow> string \<Rightarrow> pyexc + relevance_report" where
  "find_relevant_fas_rules self context question =
     (let query_text = context @ '' '' @ question;
          query_text = (if length query_text > 1000 then take 1000 query_text else query_text);
          docs_and_scores = retrieve_top_fas_rules self query_text 3
      in if docs_and_scores = [] then
           Inr \<lparr>message = ''No relevant FAS rules found or retriever not available.'', rules = []\<rparr>
         else
           (case (if docs_and_scores \<noteq> [] then py_max (map snd docs_and_scores) else Inr 1) of
              Inl e \<Rightarrow> Inl e
            | Inr max_score \<Rightarrow>
               (case rules_loop max_score docs_and_scores [] of
                  Inl e \<Rightarrow> Inl e
                | Inr rules' \<Rightarrow>
                    Inr \<lparr>message = ''Found '' @ show_nat (length rules') @ '' relevant FAS rules.'',
                         rules = rules'\<rparr>)))"

subsection \<open>Names for parts of the source used in the statements below\<close>

text \<open>
  The context string \<open>_retrieve_relevant_documents(query)\<close> returns (the default
  \<open>max_docs = 3\<close>), whatever was sent before.
\<close>

definition context_for :: "(json \<Rightarrow> string) \<Rightarrow> agent_chain \<Rightarrow> string \<Rightarrow> string" where
  "context_for fmt self query = fst (retrieve_relevant_documents fmt self [] query 3)"


text \<open>
  The hits \<open>find_relevant_fas_rules\<close> works on: what \<open>_retrieve_top_fas_rules\<close> returns
  for the query built from \<open>context\<close> and \<open>question\<close>, cut to 1000 characters, with
  \<open>max_docs = 3\<close>.
\<close>

definition fas_hits :: "agent_chain \<Rightarrow> string \<Rightarrow> string \<Rightarrow> (document \<times> real) list" where
  "fas_hits self context question =
     retrieve_top_fas_rules self (take 1000 (context @ '' '' @ question)) 3"

text \<open>
  The report entry of one hit as the specification describes it: source, page, snippet,
  and the score as a percentage of \<open>max_score\<close>, rounded to two decimals.
\<close>

definition rule_for :: "real \<Rightarrow> document \<times> real \<Rightarrow> rule" where
  "rule_for max_score hit =
     \<lparr>source = metadata_get (fst hit) ''source'' ''Unknown source'',
      page = metadata_get (fst hit) ''page'' ''Unknown page'',
      content_snippet = snippet_of (page_content (fst hit)),
      relevance_percentage = py_round2 (snd hit / max_score * 100)\<rparr>"

section \<open>Example inputs\<close>

text \<open>Concrete corpora, used to evaluate the model at explicit inputs.\<close>

definition record_A :: json where
  "record_A = JObj [(''file_name'', JStr ''A''),
     (''content'', JList [JObj [(''text'', JStr ''riba is prohibited''), (''page'', JInt 1)],
                          JObj [(''text'', JStr ''  ''), (''page'', JInt 2)]])]"

definition corpus_A :: json where
  "corpus_A = JList [record_A]"

definition corpus_blank :: json where
  "corpus_blank = JList [JObj [(''file_name'', JStr ''B''),
     (''content'', JList [JObj [(''text'', JStr '' ''), (''page'', JInt 1)]])]]"

definition record_no_file_name :: json where
  "record_no_file_name =
     JObj [(''content'', JList [JObj [(''text'', JStr ''zakat''), (''page'', JInt 1)]])]"

definition corpus_missing_field :: json where
  "corpus_missing_field = JList [record_A, record_no_file_name]"

definition chunk_A :: document where
  "chunk_A = \<lparr>page_content = ''riba is prohibited'',
               metadata = [(''source'', JStr ''A''), (''page'', JInt 1)]\<rparr>"

text \<open>Concrete collaborators: a retriever, vector stores and language-model chains.\<close>

definition no_fmt :: "json \<Rightarrow> string" where
  "no_fmt v = []"

definition chunk_B :: document where
  "chunk_B = \<lparr>page_content = ''zakat is due'', metadata = [(''source'', JStr ''B'')]\<rparr>"

definition chunk_long :: document where
  "chunk_long = \<lparr>page_content = replicate 201 (CHR ''a''), metadata = []\<rparr>"

definition docs_AB :: "string \<Rightarrow> nat \<Rightarrow> pyexc + document list" where
  "docs_AB query k = Inr [chunk_A, chunk_B]"

definition search_21 :: "string \<Rightarrow> nat \<Rightarrow> pyexc + (document \<times> real) list" where
  "search_21 query k = Inr [(chunk_A, 2), (chunk_B, 1)]"

definition search_long :: "string \<Rightarrow> nat \<Rightarrow> pyexc + (document \<times> real) list" where
  "search_long query k = Inr [(chunk_long, 1)]"

definition review_ok :: "string \<Rightarrow> string \<Rightarrow> pyexc + string" where
  "review_ok input_text retrieved_context = Inr (''summary of '' @ input_text)"

definition enhancement_ok :: "string \<Rightarrow> string \<Rightarrow> pyexc + string" where
  "enhancement_ok summary_text retrieved_context = Inr (''enhance '' @ summary_text)"

definition enhancement_fails :: "string \<Rightarrow> string \<Rightarrow> pyexc + string" where
  "enhancement_fails summary_text retrieved_context =
     Inl (Raised ''RuntimeError'' ''model unavailable'')"

definition validation_ok :: "string \<Rightarrow> string \<Rightarrow> string \<Rightarrow> pyexc + string" where
  "validation_ok input_text suggestion_text retrieved_context = Inr ''approve''"

definition retriever_AB :: retriever_obj where
  "retriever_AB = \<lparr>get_relevant_documents = docs_AB, vectorstore = None\<rparr>"

definition agent_ok :: agent_chain where
  "agent_ok = \<lparr>retriever = Some retriever_AB, review_chain = review_ok,
                enhancement_chain = enhancement_ok, validation_chain = validation_ok\<rparr>"

definition agent_enhancement_fails :: agent_chain where
  "agent_enhancement_fails =
     \<lparr>retriever = Some retriever_AB, review_chain = review_ok,
      enhancement_chain = enhancement_fails, validation_chain = validation_ok\<rparr>"

text \<open>A store with \<open>similarity_search_with_score\<close>, answering with scores 2 and 1.\<close>

definition agent_scored :: agent_chain where
  "agent_scored =
     \<lparr>retriever = Some \<lparr>get_relevant_documents = docs_AB,
                         vectorstore = Some (VectorStore (Some search_21))\<rparr>,
      review_chain = review_ok, enhancement_chain = enhancement_ok,
      validation_chain = validation_ok\<rparr>"

text \<open>A store without \<open>similarity_search_with_score\<close>: the fallback path of
  \<open>_retrieve_top_fas_rules\<close>.\<close>

definition agent_fallback :: agent_chain where
  "agent_fallback =
     \<lparr>retriever = Some \<lparr>get_relevant_documents = docs_AB,
                         vectorstore = Some (VectorStore None)\<rparr>,
      review_chain = review_ok, enhancement_chain = enhancement_ok,
      validation_chain = validation_ok\<rparr>"

text \<open>A store answering with one chunk of 201 characters.\<close>

definition agent_long :: agent_chain where
  "agent_long =
     \<lparr>retriever = Some \<lparr>get_relevant_documents = docs_AB,
                         vectorstore = Some (VectorStore (Some search_long))\<rparr>,
      review_chain = review_ok, enhancement_chain = enhancement_ok,
      validation_chain = validation_ok\<rparr>"






definition report_scored :: relevance_report where
  "report_scored =
     \<lparr>message = ''Found 2 relevant FAS rules.'',
      rules = [\<lparr>source = JStr ''A'', page = JInt 1, content_snippet = ''riba is prohibited'',
                 relevance_percentage = 100\<rparr>,
               \<lparr>source = JStr ''B'', page = JStr ''Unknown page'',
                 content_snippet = ''zakat is due'', relevance_percentage = 50\<rparr>]\<rparr>"

section \<open>Properties of the document store\<close>

text \<open>On well-formed pages the inner loop appends one chunk per page whose trimmed text is
  non-empty, and raises nothing.\<close>

lemma load_pages_wf:
  "list_all wf_page ps \<Longrightarrow>
   load_pages fn ps docs =
     (None, docs @ map chunk_of (filter nonempty_after_trim (map (\<lambda>p. (fn, p)) ps)))"
proof (induction ps arbitrary: docs)
  case Nil
  then show ?case by simp
next
  case (Cons p ps)
  from Cons.prems have wp: "wf_page p" and wps: "list_all wf_page ps" by simp_all
  from wp obtain kv where p: "p = JObj kv" by (cases p) simp_all
  show ?case
  proof (cases "map_of kv ''text''")
    case None
    then show ?thesis using Cons.IH [OF wps] p
      by (simp add: nonempty_after_trim_def strip_def)
  next
    case (Some v)
    with wp p obtain t where v: "v = JStr t" by (cases v) simp_all
    show ?thesis using Cons.IH [OF wps] p Some v
      by (simp add: nonempty_after_trim_def chunk_of_def split: option.splits)
  qed
qed

text \<open>The outer loop runs through a well-formed prefix of the records and goes on with the
  chunks of that prefix appended.\<close>

lemma load_items_wf_append:
  "list_all wf_item good \<Longrightarrow>
   load_items (good @ rest) docs = load_items rest (docs @ expected_chunks good)"
proof (induction good arbitrary: docs)
  case Nil
  then show ?case by (simp add: expected_chunks_def page_entries_def)
next
  case (Cons item good)
  from Cons.prems have wi: "wf_item item" and wg: "list_all wf_item good" by simp_all
  from wi obtain kv where item: "item = JObj kv" by (cases item) simp_all
  from wi item obtain fn where fn: "map_of kv ''file_name'' = Some fn" by auto
  from wi item obtain ps where ps: "map_of kv ''content'' = Some (JList ps)"
    and wps: "list_all wf_page ps"
    by (auto split: option.splits json.splits)
  have "expected_chunks (item # good) =
        map chunk_of (filter nonempty_after_trim (map (\<lambda>p. (fn, p)) ps)) @ expected_chunks good"
    using item fn ps by (simp add: expected_chunks_def page_entries_def)
  then show ?case
    using Cons.IH [OF wg] item fn ps load_pages_wf [OF wps] by simp
qed

lemma load_items_wf:
  "list_all wf_item items \<Longrightarrow> load_items items docs = (None, docs @ expected_chunks items)"
  using load_items_wf_append [of items "[]" docs] by simp

text \<open>A record without \<open>file_name\<close> or \<open>content\<close> raises \<open>KeyError\<close> before any of its
  pages is read.\<close>

lemma load_items_missing_field:
  "missing_field bad \<Longrightarrow> \<exists>k. load_items (bad # rest) docs = (Some (KeyError k), docs)"
  by (cases bad) (auto split: option.splits)

lemma load_documents_wf:
  "well_formed data \<Longrightarrow>
   load_documents self (Inr data) =
     (True, self\<lparr>documents := expected_chunks (corpus_items data)\<rparr>)"
  by (cases data) (simp_all add: load_documents_def load_items_wf)

lemma nonempty_le_page_count: "nonempty_page_count data \<le> page_count data"
  by (simp add: nonempty_page_count_def page_count_def)

lemma length_expected_chunks:
  "length (expected_chunks (corpus_items data)) = nonempty_page_count data"
  by (simp add: expected_chunks_def nonempty_page_count_def)

lemma strip_examples:
  "strip ''riba is prohibited'' = ''riba is prohibited''" "strip ''  '' = []" "strip '' '' = []"
  "strip ''zakat'' = ''zakat''"
  by (simp_all add: strip_def py_isspace_def)

text \<open>
  Claim C6, as amended. For a well-formed corpus with \<open>N\<close> page entries of which \<open>M\<close> have
  a text that is non-empty after trimming, \<open>load_documents\<close> returns \<open>True\<close> and stores
  exactly the \<open>M\<close> chunks of those entries, in corpus order, each with the trimmed text, the
  file name of its record as \<open>source\<close> and the page number as \<open>page\<close>; \<open>M \<le> N\<close>. When
  \<open>M \<ge> 1\<close>, \<open>build_vectorstore\<close> then returns \<open>True\<close> with an index of exactly \<open>M\<close>
  entries. When \<open>M = 0\<close>, \<open>build_vectorstore\<close> returns \<open>False\<close> and changes nothing: no
  index is built, and an index of an earlier build stays.
\<close>

theorem ingest_then_build_index:
  assumes "well_formed data"
  shows "fst (load_documents self (Inr data)) = True \<and>
         documents (snd (load_documents self (Inr data))) = expected_chunks (corpus_items data) \<and>
         length (documents (snd (load_documents self (Inr data)))) = nonempty_page_count data \<and>
         nonempty_page_count data \<le> page_count data \<and>
         (0 < nonempty_page_count data \<longrightarrow>
            fst (build_vectorstore (snd (load_documents self (Inr data)))) = True \<and>
            index_size (snd (build_vectorstore (snd (load_documents self (Inr data)))))
              = Some (nonempty_page_count data)) \<and>
         (nonempty_page_count data = 0 \<longrightarrow>
            build_vectorstore (snd (load_documents self (Inr data)))
              = (False, snd (load_documents self (Inr data))))"
proof -
  let ?s = "snd (load_documents self (Inr data))"
  have ld: "load_documents self (Inr data) =
      (True, self\<lparr>documents := expected_chunks (corpus_items data)\<rparr>)"
    using assms by (rule load_documents_wf)
  have docs: "documents ?s = expected_chunks (corpus_items data)" by (simp add: ld)
  have len: "length (documents ?s) = nonempty_page_count data"
    by (simp add: docs length_expected_chunks)
  have pos: "0 < nonempty_page_count data \<longrightarrow>
      fst (build_vectorstore ?s) = True \<and>
      index_size (snd (build_vectorstore ?s)) = Some (nonempty_page_count data)"
  proof
    assume "0 < nonempty_page_count data"
    with len have ne: "documents ?s \<noteq> []" by auto
    then show "fst (build_vectorstore ?s) = True \<and>
        index_size (snd (build_vectorstore ?s)) = Some (nonempty_page_count data)"
      using len by (simp add: build_vectorstore_def index_size_def from_documents_def Let_def)
  qed
  have zero: "nonempty_page_count data = 0 \<longrightarrow> build_vectorstore ?s = (False, ?s)"
  proof
    assume "nonempty_page_count data = 0"
    with len have "documents ?s = []" by simp
    then show "build_vectorstore ?s = (False, ?s)" by (simp add: build_vectorstore_def)
  qed
  show ?thesis using ld docs len pos zero nonempty_le_page_count [of data] by simp
qed

text \<open>The theorem at the corpus of one record with a page of text and a blank page.\<close>

theorem ingest_then_build_index_witness:
  "well_formed corpus_A \<and> page_count corpus_A = 2 \<and> nonempty_page_count corpus_A = 1 \<and>
   fst (load_documents init_document_manager (Inr corpus_A)) = True \<and>
   documents (snd (load_documents init_document_manager (Inr corpus_A))) = [chunk_A] \<and>
   index_size (snd (build_vectorstore (snd (load_documents init_document_manager (Inr corpus_A)))))
     = Some 1"
proof -
  have wf: "well_formed corpus_A" by (simp add: corpus_A_def record_A_def)
  have n: "page_count corpus_A = 2"
    by (simp add: page_count_def page_entries_def corpus_A_def record_A_def)
  have m: "nonempty_page_count corpus_A = 1"
    by (simp add: nonempty_page_count_def page_entries_def corpus_A_def record_A_def
        nonempty_after_trim_def strip_examples)
  have e: "expected_chunks (corpus_items corpus_A) = [chunk_A]"
    by (simp add: expected_chunks_def page_entries_def corpus_A_def record_A_def
        nonempty_after_trim_def strip_examples chunk_of_def chunk_A_def)
  show ?thesis
    using ingest_then_build_index [OF wf, of init_document_manager] wf n m e by simp
qed

text \<open>
  Claim C6 as stated fails when \<open>M = 0\<close>. For the corpus of one blank page, \<open>build_vectorstore\<close>
  on the fresh store returns \<open>False\<close> and the store has no index; and when the store already
  holds the index of \<open>corpus_A\<close>, loading the blank corpus and building again leaves that
  index of one entry, not an index of \<open>M = 0\<close> entries.
\<close>

theorem empty_corpus_builds_no_index:
  "well_formed corpus_blank \<and> nonempty_page_count corpus_blank = 0 \<and>
   build_vectorstore (snd (load_documents init_document_manager (Inr corpus_blank)))
     = (False, init_document_manager) \<and>
   index_size (snd (build_vectorstore (snd (load_documents init_document_manager (Inr corpus_blank)))))
     = None \<and>
   index_size (snd (build_vectorstore (snd (load_documents
      (snd (build_vectorstore (snd (load_documents init_document_manager (Inr corpus_A)))))
      (Inr corpus_blank))))) = Some 1"
  by (simp add: corpus_blank_def corpus_A_def record_A_def nonempty_page_count_def page_entries_def
      nonempty_after_trim_def strip_examples load_documents_def build_vectorstore_def
      init_document_manager_def index_size_def from_documents_def Let_def)

text \<open>
  Claim C10. For a well-formed corpus file, \<open>load_documents\<close> succeeds, and a second call on
  the same file leaves the store exactly as the first call did: the chunk list is replaced,
  not appended to, so the chunk count after two calls is the count after one. The list
  does not depend on what the store held before the call.
\<close>

theorem load_documents_twice:
  assumes "well_formed data"
  shows "fst (load_documents self (Inr data)) = True \<and>
         load_documents (snd (load_documents self (Inr data))) (Inr data)
           = load_documents self (Inr data) \<and>
         length (documents (snd (load_documents (snd (load_documents self (Inr data))) (Inr data))))
           = length (documents (snd (load_documents self (Inr data)))) \<and>
         documents (snd (load_documents self (Inr data)))
           = documents (snd (load_documents init_document_manager (Inr data)))"
  using assms by (simp add: load_documents_wf)

theorem load_documents_twice_witness:
  "well_formed corpus_A \<and>
   load_documents (snd (load_documents init_document_manager (Inr corpus_A))) (Inr corpus_A)
     = (True, init_document_manager\<lparr>documents := [chunk_A]\<rparr>) \<and>
   load_documents init_document_manager (Inr corpus_A)
     = (True, init_document_manager\<lparr>documents := [chunk_A]\<rparr>)"
proof -
  have wf: "well_formed corpus_A" by (simp add: corpus_A_def record_A_def)
  have e: "load_documents init_document_manager (Inr corpus_A)
     = (True, init_document_manager\<lparr>documents := [chunk_A]\<rparr>)"
    by (simp add: load_documents_def corpus_A_def record_A_def strip_examples chunk_A_def)
  show ?thesis using load_documents_twice [OF wf, of init_document_manager] wf e by simp
qed

text \<open>
  Claim C4, as amended. When the records before the first malformed one are well-formed
  and that record lacks \<open>file_name\<close> or \<open>content\<close>, \<open>load_documents\<close> raises nothing and
  returns \<open>False\<close>; the chunk list the store held before is discarded, and the store is
  left with the chunks of the records before the malformed one. Nothing is rolled back.
\<close>

theorem load_documents_missing_field:
  assumes "list_all wf_item good" and "missing_field bad"
  shows "load_documents self (Inr (JList (good @ bad # rest)))
           = (False, self\<lparr>documents := expected_chunks good\<rparr>)"
proof -
  obtain k where
    "load_items (bad # rest) (expected_chunks good) = (Some (KeyError k), expected_chunks good)"
    using load_items_missing_field [OF assms(2)] by blast
  then show ?thesis
    using load_items_wf_append [OF assms(1), of "bad # rest" "[]"]
    by (simp add: load_documents_def)
qed

theorem load_documents_missing_field_witness:
  "list_all wf_item [record_A] \<and> missing_field record_no_file_name \<and>
   load_documents init_document_manager (Inr (JList ([record_A] @ record_no_file_name # [])))
     = (False, init_document_manager\<lparr>documents := [chunk_A]\<rparr>)"
proof -
  have wf: "list_all wf_item [record_A]" by (simp add: record_A_def)
  have mf: "missing_field record_no_file_name" by (simp add: record_no_file_name_def)
  have e: "expected_chunks [record_A] = [chunk_A]"
    by (simp add: expected_chunks_def page_entries_def record_A_def
        nonempty_after_trim_def strip_examples chunk_of_def chunk_A_def)
  show ?thesis
    using load_documents_missing_field [OF wf mf, of init_document_manager "[]"] wf mf e by simp
qed

text \<open>
  Claim C4 as stated fails: on a corpus whose second record has no \<open>file_name\<close>, the call
  returns \<open>False\<close> (it does not raise), and the chunk of the first record stays in the store.
\<close>

theorem load_documents_keeps_partial_chunks:
  "load_documents init_document_manager (Inr corpus_missing_field)
     = (False, \<lparr>documents = [chunk_A], dm_vectorstore = None, dm_retriever = None\<rparr>) \<and>
   documents (snd (load_documents init_document_manager (Inr corpus_missing_field))) \<noteq> []"
  by (simp add: load_documents_def corpus_missing_field_def record_A_def record_no_file_name_def
      strip_examples chunk_A_def init_document_manager_def)

section \<open>Properties of the context formatter and the three-stage chain\<close>

lemma truncate_1000: "(if length s > 1000 then take 1000 s else s) = take 1000 s"
  by simp

lemma show_nat_digits:
  "show_nat 1 = ''1''" "show_nat 2 = ''2''" "show_nat 3 = ''3''"
  "show_nat (Suc 0) = ''1''" "show_nat (Suc (Suc 0)) = ''2''" "show_nat (Suc (Suc (Suc 0))) = ''3''"
  by (simp_all add: show_nat.simps)





lemma queries_sent:
  "retriever self = Some r \<Longrightarrow>
   snd (retrieve_relevant_documents fmt self qs query max_docs) = qs @ [query]"
  by (simp add: retrieve_relevant_documents_def split: sum.splits)

lemma context_independent_of_queries:
  "fst (retrieve_relevant_documents fmt self qs query max_docs) =
   fst (retrieve_relevant_documents fmt self [] query max_docs)"
  by (simp add: retrieve_relevant_documents_def split: option.splits sum.splits)

lemma retrieve_pair:
  "retriever self = Some r \<Longrightarrow>
   retrieve_relevant_documents fmt self qs query 3 = (context_for fmt self query, qs @ [query])"
  using queries_sent [of self r fmt qs query 3]
    context_independent_of_queries [of fmt self qs query 3]
  by (simp add: context_for_def prod_eq_iff)

text \<open>
  Claim C2. With a retriever in place, the queries \<open>process_standard\<close> sends are, in
  order: the first 1000 characters of the input text (all of it when it is shorter);
  then, if the review stage returned, exactly its output; then, if the enhancement stage
  returned, exactly its output. In particular a call that returns its output has sent the
  three queries truncated input, summary, suggestion.
\<close>

theorem process_standard_queries:
  assumes "retriever self = Some r"
  shows "snd (process_standard fmt self qs input_text) =
           qs @ take 1000 input_text #
             (case review_chain self input_text (context_for fmt self (take 1000 input_text)) of
                Inl e \<Rightarrow> []
              | Inr s \<Rightarrow>
                  s # (case enhancement_chain self s (context_for fmt self s) of
                         Inl e \<Rightarrow> []
                       | Inr g \<Rightarrow> [g])) \<and>
         (\<forall>out. fst (process_standard fmt self qs input_text) = Inr out \<longrightarrow>
            snd (process_standard fmt self qs input_text) =
              qs @ [take 1000 input_text, summary out, suggestion out])"
  by (auto simp add: process_standard_def retrieve_pair [OF assms] Let_def split: sum.splits)

theorem process_standard_queries_witness:
  "retriever agent_ok = Some retriever_AB \<and>
   fst (process_standard no_fmt agent_ok [] ''abc'')
     = Inr \<lparr>summary = ''summary of abc'', suggestion = ''enhance summary of abc'',
            validation = ''approve''\<rparr> \<and>
   snd (process_standard no_fmt agent_ok [] ''abc'')
     = [''abc'', ''summary of abc'', ''enhance summary of abc'']"
proof -
  have r: "retriever agent_ok = Some retriever_AB" by (simp add: agent_ok_def)
  have f: "fst (process_standard no_fmt agent_ok [] ''abc'')
     = Inr \<lparr>summary = ''summary of abc'', suggestion = ''enhance summary of abc'',
            validation = ''approve''\<rparr>"
    by (simp add: process_standard_def agent_ok_def review_ok_def enhancement_ok_def
        validation_ok_def Let_def split: prod.splits)
  from process_standard_queries [OF r, of no_fmt "[]" "''abc''"] f
  have "snd (process_standard no_fmt agent_ok [] ''abc'')
     = [''abc'', ''summary of abc'', ''enhance summary of abc'']"
    by (simp add: agent_ok_def review_ok_def enhancement_ok_def)
  with r f show ?thesis by simp
qed

text \<open>
  Claim C3, as amended. When the language model raises at the review, the enhancement or
  the validation stage, \<open>process_standard\<close> ends with that same exception, unchanged: it
  is not wrapped and no stage name is attached. No partial output is returned: a call
  that returns an output has had all three stages succeed, and the output carries the
  three texts.
\<close>

theorem process_standard_failure:
  "(\<forall>e. review_chain self input_text (context_for fmt self (take 1000 input_text)) = Inl e \<longrightarrow>
        fst (process_standard fmt self qs input_text) = Inl e) \<and>
   (\<forall>s e. review_chain self input_text (context_for fmt self (take 1000 input_text)) = Inr s \<and>
          enhancement_chain self s (context_for fmt self s) = Inl e \<longrightarrow>
        fst (process_standard fmt self qs input_text) = Inl e) \<and>
   (\<forall>s g e. review_chain self input_text (context_for fmt self (take 1000 input_text)) = Inr s \<and>
          enhancement_chain self s (context_for fmt self s) = Inr g \<and>
          validation_chain self input_text g (context_for fmt self g) = Inl e \<longrightarrow>
        fst (process_standard fmt self qs input_text) = Inl e) \<and>
   (\<forall>out. fst (process_standard fmt self qs input_text) = Inr out \<longrightarrow>
        review_chain self input_text (context_for fmt self (take 1000 input_text))
          = Inr (summary out) \<and>
        enhancement_chain self (summary out) (context_for fmt self (summary out))
          = Inr (suggestion out) \<and>
        validation_chain self input_text (suggestion out) (context_for fmt self (suggestion out))
          = Inr (validation out))"
proof (cases "retriever self")
  case None
  have "\<And>qs q. retrieve_relevant_documents fmt self qs q 3 = (context_for fmt self q, qs)"
    using None by (simp add: retrieve_relevant_documents_def context_for_def)
  then show ?thesis
    by (auto simp add: process_standard_def Let_def split: sum.splits)
next
  case (Some r)
  show ?thesis
    by (auto simp add: process_standard_def retrieve_pair [OF Some] Let_def split: sum.splits)
qed

theorem process_standard_failure_witness:
  "review_chain agent_enhancement_fails ''abc''
      (context_for no_fmt agent_enhancement_fails (take 1000 ''abc'')) = Inr ''summary of abc'' \<and>
   enhancement_chain agent_enhancement_fails ''summary of abc''
      (context_for no_fmt agent_enhancement_fails ''summary of abc'')
      = Inl (Raised ''RuntimeError'' ''model unavailable'') \<and>
   fst (process_standard no_fmt agent_enhancement_fails [] ''abc'')
      = Inl (Raised ''RuntimeError'' ''model unavailable'')"
proof -
  have r: "review_chain agent_enhancement_fails ''abc''
      (context_for no_fmt agent_enhancement_fails (take 1000 ''abc'')) = Inr ''summary of abc''"
    by (simp add: agent_enhancement_fails_def review_ok_def)
  have e: "enhancement_chain agent_enhancement_fails ''summary of abc''
      (context_for no_fmt agent_enhancement_fails ''summary of abc'')
      = Inl (Raised ''RuntimeError'' ''model unavailable'')"
    by (simp add: agent_enhancement_fails_def enhancement_fails_def)
  from process_standard_failure [of agent_enhancement_fails "''abc''" no_fmt "[]"] r e
  have "fst (process_standard no_fmt agent_enhancement_fails [] ''abc'')
      = Inl (Raised ''RuntimeError'' ''model unavailable'')"
    by blast
  with r e show ?thesis by simp
qed

text \<open>
  Claim C3 as stated fails: when the model raises \<open>RuntimeError\<close> at the enhancement
  stage, the call ends with that \<open>RuntimeError\<close>, which is no \<open>GenerationError\<close> and names
  no stage.
\<close>

theorem provider_exception_is_not_generation_error:
  "fst (process_standard no_fmt agent_enhancement_fails [] ''abc'')
      = Inl (Raised ''RuntimeError'' ''model unavailable'') \<and>
   exc_class (Raised ''RuntimeError'' ''model unavailable'') \<noteq> ''GenerationError'' \<and>
   exc_message (Raised ''RuntimeError'' ''model unavailable'') \<noteq> ''enhancement''"
  by (simp add: process_standard_def agent_enhancement_fails_def review_ok_def
      enhancement_fails_def retrieve_relevant_documents_def Let_def split: prod.splits)

section \<open>Properties of the relevance scorer\<close>

text \<open>With a non-zero \<open>max_score\<close> the loop appends one entry per hit, in the order of
  the hits; with \<open>max_score = 0\<close> its first division raises.\<close>

lemma rules_loop_nonzero:
  "m \<noteq> 0 \<Longrightarrow> rules_loop m hits acc = Inr (acc @ map (rule_for m) hits)"
  by (induction hits arbitrary: acc) (auto simp add: py_div_def rule_for_def Let_def)

lemma rules_loop_zero:
  "hits \<noteq> [] \<Longrightarrow> rules_loop 0 hits acc = Inl ZeroDivisionError"
  by (cases hits) (auto simp add: py_div_def)

lemma py_max_Max:
  assumes "xs \<noteq> []"
  shows "py_max xs = Inr (Max (set xs))"
proof (cases xs)
  case Nil
  then show ?thesis using assms by simp
next
  case (Cons x ys)
  have "Max (set (x # ys)) = fold max ys x" by (rule Max.set_eq_fold)
  then show ?thesis using Cons by simp
qed

text \<open>The three outcomes of \<open>find_relevant_fas_rules\<close>.\<close>

lemma find_relevant_fas_rules_eq:
  "find_relevant_fas_rules self context question =
     (if fas_hits self context question = [] then
        Inr \<lparr>message = ''No relevant FAS rules found or retriever not available.'', rules = []\<rparr>
      else if Max (set (map snd (fas_hits self context question))) = 0 then Inl ZeroDivisionError
      else
        Inr \<lparr>message = ''Found '' @ show_nat (length (fas_hits self context question)) @
                        '' relevant FAS rules.'',
             rules = map (rule_for (Max (set (map snd (fas_hits self context question)))))
                       (fas_hits self context question)\<rparr>)"
proof -
  let ?hits = "fas_hits self context question"
  have q: "(if length (context @ '' '' @ question) > 1000
            then take 1000 (context @ '' '' @ question) else context @ '' '' @ question)
           = take 1000 (context @ '' '' @ question)"
    by (rule truncate_1000)
  have unfold: "find_relevant_fas_rules self context question =
     (if ?hits = [] then
        Inr \<lparr>message = ''No relevant FAS rules found or retriever not available.'', rules = []\<rparr>
      else
        (case (if ?hits \<noteq> [] then py_max (map snd ?hits) else Inr 1) of
           Inl e \<Rightarrow> Inl e
         | Inr max_score \<Rightarrow>
            (case rules_loop max_score ?hits [] of
               Inl e \<Rightarrow> Inl e
             | Inr rules' \<Rightarrow>
                 Inr \<lparr>message = ''Found '' @ show_nat (length rules') @ '' relevant FAS rules.'',
                      rules = rules'\<rparr>)))"
    unfolding find_relevant_fas_rules_def Let_def q fas_hits_def ..
  show ?thesis
  proof (cases "?hits = []")
    case True
    then show ?thesis by (simp add: unfold)
  next
    case False
    then have m: "py_max (map snd ?hits) = Inr (Max (set (map snd ?hits)))"
      by (simp add: py_max_Max)
    show ?thesis
    proof (cases "Max (set (map snd ?hits)) = 0")
      case True
      then show ?thesis using False m by (simp add: unfold rules_loop_zero)
    next
      case nz: False
      then show ?thesis using False m by (simp add: unfold rules_loop_nonzero)
    qed
  qed
qed

lemma hits_scored:
  "fas_hits agent_scored ''murabaha'' ''which standard?'' = [(chunk_A, 2), (chunk_B, 1)]"
  by (simp add: fas_hits_def retrieve_top_fas_rules_def agent_scored_def search_21_def)

lemma hits_long: "fas_hits agent_long ''murabaha'' ''which standard?'' = [(chunk_long, 1)]"
  by (simp add: fas_hits_def retrieve_top_fas_rules_def agent_long_def search_long_def)

lemma py_round2_values: "py_round2 100 = 100" "py_round2 50 = 50"
  by (simp_all add: py_round2_def Let_def)

lemma rules_scored:
  "rule_for 2 (chunk_A, 2) =
     \<lparr>source = JStr ''A'', page = JInt 1, content_snippet = ''riba is prohibited'',
       relevance_percentage = 100\<rparr>"
  "rule_for 2 (chunk_B, 1) =
     \<lparr>source = JStr ''B'', page = JStr ''Unknown page'', content_snippet = ''zakat is due'',
       relevance_percentage = 50\<rparr>"
  by (simp_all add: rule_for_def metadata_get_def chunk_A_def chunk_B_def snippet_of_def
      py_round2_values)

lemma find_scored:
  "find_relevant_fas_rules agent_scored ''murabaha'' ''which standard?'' = Inr report_scored"
  by (simp add: find_relevant_fas_rules_eq hits_scored rules_scored show_nat_digits
      report_scored_def)

text \<open>
  Claim C1: the code at a failing input. The store of \<open>agent_fallback\<close> has no
  \<open>similarity_search_with_score\<close>, so \<open>_retrieve_top_fas_rules\<close> gives every document
  the placeholder score \<open>0.0\<close>; the maximum is 0 and the division by \<open>max_score\<close> is not
  guarded: \<open>find_relevant_fas_rules\<close> raises \<open>ZeroDivisionError\<close> instead of reporting
  the percentage 0 for every hit.
\<close>

theorem placeholder_scores_raise_zero_division:
  "retrieve_top_fas_rules agent_fallback (take 1000 (''murabaha'' @ '' '' @ ''which standard?'')) 3
     = [(chunk_A, 0), (chunk_B, 0)] \<and>
   find_relevant_fas_rules agent_fallback ''murabaha'' ''which standard?'' = Inl ZeroDivisionError"
  by (simp add: find_relevant_fas_rules_def retrieve_top_fas_rules_def agent_fallback_def
      docs_AB_def py_div_def Let_def)






lemma snippet_of_bounds:
  "length (snippet_of text) \<le> 203"
  "prefix (take 200 (snippet_of text)) text"
  "length text \<le> 200 \<Longrightarrow> snippet_of text = text"
  by (auto simp add: snippet_of_def take_is_prefix)

text \<open>
  Claim C8, as amended. In every report returned, the snippet of a chunk is the first 200
  characters of the chunk text followed by \<open>"..."\<close> when the text has more than 200
  characters, and the unmodified text otherwise; it has at most 203 characters; its first
  200 characters are a prefix of the chunk text, and the snippet itself is a prefix of
  the chunk text when the text has at most 200 characters.
\<close>

theorem content_snippet_truncation:
  assumes "find_relevant_fas_rules self context question = Inr rep"
  shows "length (rules rep) = length (fas_hits self context question) \<and>
         (\<forall>i < length (rules rep).
            content_snippet (rules rep ! i) =
              (if length (page_content (fst (fas_hits self context question ! i))) > 200
               then take 200 (page_content (fst (fas_hits self context question ! i))) @ ''...''
               else page_content (fst (fas_hits self context question ! i))) \<and>
            length (content_snippet (rules rep ! i)) \<le> 203 \<and>
            prefix (take 200 (content_snippet (rules rep ! i)))
                   (page_content (fst (fas_hits self context question ! i))) \<and>
            (length (page_content (fst (fas_hits self context question ! i))) \<le> 200 \<longrightarrow>
               prefix (content_snippet (rules rep ! i))
                      (page_content (fst (fas_hits self context question ! i)))))"
proof -
  let ?hits = "fas_hits self context question"
  have r: "rules rep = map (rule_for (Max (set (map snd ?hits)))) ?hits"
    using assms by (auto simp add: find_relevant_fas_rules_eq split: if_splits)
  have s: "\<And>i. i < length ?hits \<Longrightarrow>
      content_snippet (rules rep ! i) = snippet_of (page_content (fst (?hits ! i)))"
    by (simp add: r rule_for_def)
  show ?thesis
  proof (intro conjI allI impI)
    show "length (rules rep) = length ?hits" by (simp add: r)
  next
    fix i assume "i < length (rules rep)"
    then have i: "i < length ?hits" by (simp add: r)
    show "content_snippet (rules rep ! i) =
        (if length (page_content (fst (?hits ! i))) > 200
         then take 200 (page_content (fst (?hits ! i))) @ ''...''
         else page_content (fst (?hits ! i)))"
      by (simp add: s [OF i] snippet_of_def)
    show "length (content_snippet (rules rep ! i)) \<le> 203"
      by (simp add: s [OF i] snippet_of_bounds)
    show "prefix (take 200 (content_snippet (rules rep ! i))) (page_content (fst (?hits ! i)))"
      by (simp add: s [OF i] snippet_of_bounds)
    assume "length (page_content (fst (?hits ! i))) \<le> 200"
    then show "prefix (content_snippet (rules rep ! i)) (page_content (fst (?hits ! i)))"
      by (simp add: s [OF i] snippet_of_bounds)
  qed
qed

theorem content_snippet_truncation_witness:
  "find_relevant_fas_rules agent_scored ''murabaha'' ''which standard?'' = Inr report_scored \<and>
   content_snippet (rules report_scored ! 0) = ''riba is prohibited'' \<and>
   length (content_snippet (rules report_scored ! 0)) \<le> 203 \<and>
   prefix (content_snippet (rules report_scored ! 0)) (page_content chunk_A)"
proof -
  note t = content_snippet_truncation [OF find_scored]
  from t have every: "\<forall>i < length (rules report_scored).
      content_snippet (rules report_scored ! i) =
        (if length (page_content (fst (fas_hits agent_scored ''murabaha'' ''which standard?'' ! i)))
              > 200
         then take 200 (page_content (fst (fas_hits agent_scored ''murabaha'' ''which standard?'' ! i)))
              @ ''...''
         else page_content (fst (fas_hits agent_scored ''murabaha'' ''which standard?'' ! i))) \<and>
      length (content_snippet (rules report_scored ! i)) \<le> 203 \<and>
      prefix (take 200 (content_snippet (rules report_scored ! i)))
             (page_content (fst (fas_hits agent_scored ''murabaha'' ''which standard?'' ! i))) \<and>
      (length (page_content (fst (fas_hits agent_scored ''murabaha'' ''which standard?'' ! i)))
           \<le> 200 \<longrightarrow>
         prefix (content_snippet (rules report_scored ! i))
                (page_content (fst (fas_hits agent_scored ''murabaha'' ''which standard?'' ! i))))"
    by (rule conjunct2)
  have first: "0 < length (rules report_scored)" by (simp add: report_scored_def)
  from every [rule_format, OF first] find_scored show ?thesis
    by (simp add: hits_scored chunk_A_def)
qed

text \<open>
  Claim C8 as stated fails on its last part: for a chunk of 201 characters the snippet is
  the first 200 characters followed by \<open>"..."\<close>, 203 characters in all, which is not a
  prefix of the chunk text.
\<close>

theorem truncated_snippet_is_not_a_prefix:
  "find_relevant_fas_rules agent_long ''murabaha'' ''which standard?'' =
     Inr \<lparr>message = ''Found 1 relevant FAS rules.'',
          rules = [\<lparr>source = JStr ''Unknown source'', page = JStr ''Unknown page'',
                     content_snippet = replicate 200 (CHR ''a'') @ ''...'',
                     relevance_percentage = 100\<rparr>]\<rparr> \<and>
   page_content chunk_long = replicate 201 (CHR ''a'') \<and>
   \<not> prefix (replicate 200 (CHR ''a'') @ ''...'') (replicate 201 (CHR ''a''))"
proof -
  have "\<not> length (replicate 200 (CHR ''a'') @ ''...'') \<le> length (replicate 201 (CHR ''a''))"
    by simp
  then have np: "\<not> prefix (replicate 200 (CHR ''a'') @ ''...'') (replicate 201 (CHR ''a''))"
    using prefix_length_le by blast
  have f: "find_relevant_fas_rules agent_long ''murabaha'' ''which standard?'' =
     Inr \<lparr>message = ''Found 1 relevant FAS rules.'',
          rules = [\<lparr>source = JStr ''Unknown source'', page = JStr ''Unknown page'',
                     content_snippet = replicate 200 (CHR ''a'') @ ''...'',
                     relevance_percentage = 100\<rparr>]\<rparr>"
    by (simp add: find_relevant_fas_rules_eq hits_long rule_for_def metadata_get_def
        chunk_long_def snippet_of_def show_nat_digits py_round2_def Let_def)
  show ?thesis using f np by (simp add: chunk_long_def)
qed

text \<open>
  Claim C9. When the retrieval yields hits and their maximum raw score is strictly
  positive, \<open>find_relevant_fas_rules\<close> returns a non-empty rules list with one rule per
  hit, and the rule of every hit whose score is the maximum has the relevance percentage
  exactly 100; there is such a hit.
\<close>

theorem top_score_is_100_percent:
  assumes "fas_hits self context question \<noteq> []"
    and "0 < Max (set (map snd (fas_hits self context question)))"
  shows "\<exists>rep. find_relevant_fas_rules self context question = Inr rep \<and>
           rules rep \<noteq> [] \<and>
           length (rules rep) = length (fas_hits self context question) \<and>
           (\<forall>i < length (fas_hits self context question).
              snd (fas_hits self context question ! i)
                = Max (set (map snd (fas_hits self context question))) \<longrightarrow>
              relevance_percentage (rules rep ! i) = 100) \<and>
           (\<exists>i < length (fas_hits self context question).
              snd (fas_hits self context question ! i)
                = Max (set (map snd (fas_hits self context question))))"
proof -
  let ?hits = "fas_hits self context question"
  let ?m = "Max (set (map snd ?hits))"
  let ?rep = "\<lparr>message = ''Found '' @ show_nat (length ?hits) @ '' relevant FAS rules.'',
              rules = map (rule_for ?m) ?hits\<rparr>"
  have f: "find_relevant_fas_rules self context question = Inr ?rep"
    using assms by (simp add: find_relevant_fas_rules_eq)
  have "?m \<in> set (map snd ?hits)"
    using assms(1) by (intro Max_in) simp_all
  then obtain i where i: "i < length ?hits" "snd (?hits ! i) = ?m"
    by (auto simp add: in_set_conv_nth)
  have p: "\<forall>i < length ?hits. snd (?hits ! i) = ?m \<longrightarrow>
      relevance_percentage (rules ?rep ! i) = 100"
    using assms(2) by (simp add: rule_for_def py_round2_values)
  show ?thesis using f assms(1) p i by (intro exI [of _ ?rep]) auto
qed

theorem top_score_is_100_percent_witness:
  "fas_hits agent_scored ''murabaha'' ''which standard?'' \<noteq> [] \<and>
   0 < Max (set (map snd (fas_hits agent_scored ''murabaha'' ''which standard?''))) \<and>
   snd (fas_hits agent_scored ''murabaha'' ''which standard?'' ! 0) = 2 \<and>
   (\<exists>rep. find_relevant_fas_rules agent_scored ''murabaha'' ''which standard?'' = Inr rep \<and>
      relevance_percentage (rules rep ! 0) = 100)"
proof -
  have ne: "fas_hits agent_scored ''murabaha'' ''which standard?'' \<noteq> []"
    by (simp add: hits_scored)
  have m: "Max (set (map snd (fas_hits agent_scored ''murabaha'' ''which standard?''))) = 2"
    by (simp add: hits_scored)
  have pos: "0 < Max (set (map snd (fas_hits agent_scored ''murabaha'' ''which standard?'')))"
    using m by simp
  from top_score_is_100_percent [OF ne pos] obtain rep where
    r: "find_relevant_fas_rules agent_scored ''murabaha'' ''which standard?'' = Inr rep"
    and p: "\<forall>i < length (fas_hits agent_scored ''murabaha'' ''which standard?'').
              snd (fas_hits agent_scored ''murabaha'' ''which standard?'' ! i)
                = Max (set (map snd (fas_hits agent_scored ''murabaha'' ''which standard?''))) \<longrightarrow>
              relevance_percentage (rules rep ! i) = 100"
    by blast
  from p have "relevance_percentage (rules rep ! 0) = 100"
    by (simp add: hits_scored)
  with r ne pos show ?thesis by (auto simp add: hits_scored)
qed

end
